theory Spec2Isabelle
  imports Complex_Main "HOL-Library.AList"
begin

section \<open>JavaScript values\<close>

text \<open>
  The values the pipeline handles are the values \<^verbatim>\<open>JSON.parse\<close> builds, plus
  \<^verbatim>\<open>undefined\<close> (what reading a missing property or \<^verbatim>\<open>merged[0]\<close> of an empty
  array gives). An object is its list of own properties in insertion order, with
  distinct keys. A string is a list of characters, one per code unit. A number carries
  its numeric value.
\<close>

datatype jsval =
    JUndefined
  | JNull
  | JBool bool
  | JNumber rat
  | JString string
  | JArray "jsval list"
  | JObject "(string \<times> jsval) list"

type_synonym jsobj = "(string \<times> jsval) list"

text \<open>\<^verbatim>\<open>o.k\<close>: the own property, or \<^verbatim>\<open>undefined\<close>.\<close>

definition get_prop :: "jsobj \<Rightarrow> string \<Rightarrow> jsval" where
  "get_prop obj k = (case map_of obj k of None \<Rightarrow> JUndefined | Some v \<Rightarrow> v)"

text \<open>\<^verbatim>\<open>o.k = v\<close>: overwrite in place, or append a new property.\<close>

definition set_prop :: "jsobj \<Rightarrow> string \<Rightarrow> jsval \<Rightarrow> jsobj" where
  "set_prop obj k v = AList.update k v obj"

text \<open>
  Truthiness, as \<^verbatim>\<open>!x\<close> tests it: \<^verbatim>\<open>undefined\<close>, \<^verbatim>\<open>null\<close>, \<^verbatim>\<open>false\<close>,
  \<^verbatim>\<open>0\<close> and the empty string are falsy, every array and object is truthy.
\<close>

fun truthy :: "jsval \<Rightarrow> bool" where
  "truthy JUndefined = False"
| "truthy JNull = False"
| "truthy (JBool b) = b"
| "truthy (JNumber q) = (q \<noteq> 0)"
| "truthy (JString s) = (s \<noteq> [])"
| "truthy (JArray xs) = True"
| "truthy (JObject kvs) = True"

section \<open>Result repair: \<^verbatim>\<open>safeParseJson\<close>\<close>

text \<open>
  \<^verbatim>\<open>str.match(/\{[\s\S]*\}/m)\<close>: the match starts at the first opening brace and,
  the star being greedy over every character, ends at the last closing brace after it.
  There is no match when no closing brace follows the first opening brace.
\<close>

definition match_braces :: "string \<Rightarrow> string option" where
  "match_braces str =
     (let rest = dropWhile (\<lambda>c. c \<noteq> CHR 0x7B) str;
          m = rev (dropWhile (\<lambda>c. c \<noteq> CHR 0x7D) (rev rest))
      in if rest = [] \<or> m = [] then None else Some m)"

definition zero_classification :: jsval where
  "zero_classification =
     JObject [(''positive'', JNumber 0), (''negative'', JNumber 0),
              (''neutral'', JNumber 0), (''other'', JNumber 0)]"

text \<open>The object of the \<^verbatim>\<open>catch\<close> branch.\<close>

definition fallback_result :: "string \<Rightarrow> nat \<Rightarrow> jsobj" where
  "fallback_result str fallbackTotal =
     [(''total_emails'', JNumber (of_nat fallbackTotal)),
      (''classification'', zero_classification),
      (''highlights'', JArray []),
      (''summary'', JString (take 1000 str))]"

text \<open>\<^verbatim>\<open>if (!parsed.k) parsed.k = d\<close>.\<close>

definition fill :: "string \<Rightarrow> jsval \<Rightarrow> jsobj \<Rightarrow> jsobj" where
  "fill k d parsed = (if \<not> truthy (get_prop parsed k) then set_prop parsed k d else parsed)"

text \<open>
  \<^verbatim>\<open>safeParseJson(str, fallbackTotal)\<close>. The first argument of the model is
  \<^verbatim>\<open>JSON.parse\<close> on the texts it is given here, which begin with an opening brace: it
  returns an object, or throws (\<open>None\<close>). A throw, from the missing match or from the
  parser, lands in the \<^verbatim>\<open>catch\<close> branch. Both branches return an object, given here
  by its properties, so the assignment written after the \<^verbatim>\<open>try\<close> statement is never
  reached. The callers pass an array length or the literal 0 as \<^verbatim>\<open>fallbackTotal\<close>.
\<close>

definition safeParseJson :: "(string \<Rightarrow> jsobj option) \<Rightarrow> string \<Rightarrow> nat \<Rightarrow> jsobj" where
  "safeParseJson JSON_parse str fallbackTotal =
     (case match_braces str of
        None \<Rightarrow> fallback_result str fallbackTotal
      | Some m \<Rightarrow>
          (case JSON_parse m of
             None \<Rightarrow> fallback_result str fallbackTotal
           | Some parsed \<Rightarrow>
               fill ''summary'' (JString [])
                 (fill ''highlights'' (JArray [])
                 (fill ''classification'' zero_classification
                 (fill ''total_emails'' (JNumber (of_nat fallbackTotal)) parsed)))))"

subsection \<open>A parser for a fragment of JSON\<close>

text \<open>
  The theorems about \<open>safeParseJson\<close> hold for every parser. The concrete inputs below
  are run through this one, which reads the JSON texts made of objects, arrays, strings
  with the two-character escapes, integer literals, \<^verbatim>\<open>true\<close>, \<^verbatim>\<open>false\<close> and
  \<^verbatim>\<open>null\<close>, and rejects every other text. A repeated key keeps its first position and
  its last value. The first argument of the three mutually recursive functions bounds
  the nesting depth.
\<close>

definition is_ws :: "char \<Rightarrow> bool" where
  "is_ws c = (c = CHR 0x20 \<or> c = CHR 0x0A \<or> c = CHR 0x0D \<or> c = CHR 0x09)"

definition skip_ws :: "string \<Rightarrow> string" where
  "skip_ws s = dropWhile is_ws s"

definition unescape :: "char \<Rightarrow> char option" where
  "unescape e =
     (if e = CHR 0x22 \<or> e = CHR 0x5C \<or> e = CHR 0x2F then Some e
      else if e = CHR ''n'' then Some (CHR 0x0A)
      else if e = CHR ''r'' then Some (CHR 0x0D)
      else if e = CHR ''t'' then Some (CHR 0x09)
      else if e = CHR ''b'' then Some (CHR 0x08)
      else if e = CHR ''f'' then Some (CHR 0x0C)
      else None)"

text \<open>The characters of a string literal, after its opening quote.\<close>

fun parse_chars :: "string \<Rightarrow> (string \<times> string) option" where
  "parse_chars [] = None"
| "parse_chars [c] = (if c = CHR 0x22 then Some ([], []) else None)"
| "parse_chars (c # e # cs) =
     (if c = CHR 0x22 then Some ([], e # cs)
      else if c = CHR 0x5C then
        (case unescape e of
           None \<Rightarrow> None
         | Some d \<Rightarrow> map_option (\<lambda>(s, r). (d # s, r)) (parse_chars cs))
      else if (of_char c :: nat) < 32 then None
      else map_option (\<lambda>(s, r). (c # s, r)) (parse_chars (e # cs)))"

definition is_digit :: "char \<Rightarrow> bool" where
  "is_digit c = (48 \<le> (of_char c :: nat) \<and> (of_char c :: nat) \<le> 57)"

definition digits_value :: "string \<Rightarrow> nat" where
  "digits_value ds = foldl (\<lambda>a c. 10 * a + (of_char c - 48)) 0 ds"

text \<open>An integer literal: no leading zero, no fraction, no exponent.\<close>

definition parse_nat :: "string \<Rightarrow> (nat \<times> string) option" where
  "parse_nat s =
     (let ds = takeWhile is_digit s; r = dropWhile is_digit s
      in if ds = [] \<or> (length ds > 1 \<and> hd ds = CHR ''0'') then None
         else if r \<noteq> [] \<and> (hd r = CHR ''.'' \<or> hd r = CHR ''e'' \<or> hd r = CHR ''E'') then None
         else Some (digits_value ds, r))"

definition parse_literal :: "string \<Rightarrow> jsval \<Rightarrow> string \<Rightarrow> (jsval \<times> string) option" where
  "parse_literal w v s = (if take (length w) s = w then Some (v, drop (length w) s) else None)"

fun parse_value :: "nat \<Rightarrow> string \<Rightarrow> (jsval \<times> string) option"
  and parse_elements :: "nat \<Rightarrow> string \<Rightarrow> (jsval list \<times> string) option"
  and parse_members :: "nat \<Rightarrow> string \<Rightarrow> (jsobj \<times> string) option"
where
  "parse_value 0 s = None"
| "parse_value (Suc n) s =
     (case skip_ws s of
        [] \<Rightarrow> None
      | c # cs \<Rightarrow>
          if c = CHR 0x7B then
            (case skip_ws cs of
               [] \<Rightarrow> None
             | d # ds \<Rightarrow>
                 if d = CHR 0x7D then Some (JObject [], ds)
                 else map_option (\<lambda>(kvs, r). (JObject (foldl (\<lambda>obj (k, v). set_prop obj k v) [] kvs), r))
                        (parse_members n (d # ds)))
          else if c = CHR 0x5B then
            (case skip_ws cs of
               [] \<Rightarrow> None
             | d # ds \<Rightarrow>
                 if d = CHR 0x5D then Some (JArray [], ds)
                 else map_option (\<lambda>(vs, r). (JArray vs, r)) (parse_elements n (d # ds)))
          else if c = CHR 0x22 then map_option (\<lambda>(str, r). (JString str, r)) (parse_chars cs)
          else if c = CHR ''t'' then parse_literal ''true'' (JBool True) (c # cs)
          else if c = CHR ''f'' then parse_literal ''false'' (JBool False) (c # cs)
          else if c = CHR ''n'' then parse_literal ''null'' JNull (c # cs)
          else if c = CHR ''-'' then
            map_option (\<lambda>(k, r). (JNumber (- of_nat k), r)) (parse_nat cs)
          else map_option (\<lambda>(k, r). (JNumber (of_nat k), r)) (parse_nat (c # cs)))"
| "parse_elements 0 s = None"
| "parse_elements (Suc n) s =
     (case parse_value n s of
        None \<Rightarrow> None
      | Some (v, r) \<Rightarrow>
          (case skip_ws r of
             [] \<Rightarrow> None
           | c # cs \<Rightarrow>
               if c = CHR 0x5D then Some ([v], cs)
               else if c = CHR '','' then
                 map_option (\<lambda>(vs, r'). (v # vs, r')) (parse_elements n cs)
               else None))"
| "parse_members 0 s = None"
| "parse_members (Suc n) s =
     (case skip_ws s of
        [] \<Rightarrow> None
      | q # cs \<Rightarrow>
          if q \<noteq> CHR 0x22 then None
          else
            (case parse_chars cs of
               None \<Rightarrow> None
             | Some (k, r) \<Rightarrow>
                 (case skip_ws r of
                    [] \<Rightarrow> None
                  | c # r1 \<Rightarrow>
                      if c \<noteq> CHR '':'' then None
                      else
                        (case parse_value n r1 of
                           None \<Rightarrow> None
                         | Some (v, r2) \<Rightarrow>
                             (case skip_ws r2 of
                                [] \<Rightarrow> None
                              | e # r3 \<Rightarrow>
                                  if e = CHR 0x7D then Some ([(k, v)], r3)
                                  else if e = CHR '','' then
                                    map_option (\<lambda>(kvs, r'). ((k, v) # kvs, r')) (parse_members n r3)
                                  else None)))))"

definition JSON_parse :: "string \<Rightarrow> jsval option" where
  "JSON_parse s =
     (case parse_value (Suc (length s)) s of
        None \<Rightarrow> None
      | Some (v, r) \<Rightarrow> if skip_ws r = [] then Some v else None)"

definition JSON_parse_object :: "string \<Rightarrow> jsobj option" where
  "JSON_parse_object s =
     (case JSON_parse s of Some (JObject kvs) \<Rightarrow> Some kvs | _ \<Rightarrow> None)"

section \<open>Chunker: \<^verbatim>\<open>chunkArray\<close>\<close>

text \<open>\<^verbatim>\<open>arr.slice(i, j)\<close> for \<open>0 \<le> i \<le> j\<close>; the end is clamped to the length.\<close>

definition slice :: "'a list \<Rightarrow> nat \<Rightarrow> nat \<Rightarrow> 'a list" where
  "slice arr i j = take (j - i) (drop i arr)"

text \<open>
  The loop \<^verbatim>\<open>for (let i = 0; i < arr.length; i += size) out.push(arr.slice(i, i + size))\<close>.
  With \<open>size = 0\<close> on a non-empty array the index never moves and the loop does not
  end: not returning is the value \<open>None\<close>.
\<close>

partial_function (option) chunk_loop :: "'a list \<Rightarrow> nat \<Rightarrow> nat \<Rightarrow> 'a list list \<Rightarrow> 'a list list option" where
  "chunk_loop arr sz i out =
     (if i < length arr then chunk_loop arr sz (i + sz) (out @ [slice arr i (i + sz)])
      else Some out)"

declare chunk_loop.simps [code]

definition chunkArray :: "'a list \<Rightarrow> nat \<Rightarrow> 'a list list option" where
  "chunkArray arr sz = chunk_loop arr sz 0 []"


section \<open>The \<^verbatim>\<open>/analyzev2\<close> handler\<close>

subsection \<open>The outside world\<close>

text \<open>
  Everything the handler does not decide itself is a field of the environment: the
  JSON parser of the runtime, the answers of the chat-completion service, the outcome
  of each insert into the \<^verbatim>\<open>reports\<close> table, whether the Supabase client exists,
  whether \<^verbatim>\<open>supabase.rpc\<close> returns or throws, and the configured cost per email.
  The service is a black box: its answer to the \<open>k\<close>-th call is \<open>chat_completion e k\<close>,
  whatever the prompt was (\<open>None\<close>: the call throws; \<open>Some s\<close>: the text
  \<^verbatim>\<open>choices?.[0]?.message?.content || ""\<close>). The prompts are therefore not modelled.
  The \<open>k\<close>-th insert returns the id of the new row, or an error (\<open>None\<close>).
\<close>

record env =
  JSON_parse_obj :: "string \<Rightarrow> jsobj option"
  chat_completion :: "nat \<Rightarrow> string option"
  insert_report :: "nat \<Rightarrow> nat option"
  supabase_configured :: bool
  rpc_available :: bool
  CREDITS_PER_EMAIL :: nat

text \<open>
  A request carries a user id and an array of emails; an email is an object with the
  properties the prompt reads.
\<close>

record email =
  email_from :: string
  email_subject :: string
  email_body :: string

record report_row =
  row_id :: nat
  user_id :: string
  total_emails :: jsval
  report_text :: jsval
  summary :: jsval
  classification :: jsval
  highlights :: jsval
  sentiment_overall :: jsval
  mini_report_ids :: "nat list option"
  is_final :: bool

text \<open>
  The state: the \<^verbatim>\<open>credits\<close> column of the \<^verbatim>\<open>profiles\<close> table, the rows of the
  \<^verbatim>\<open>reports\<close> table, and three counters that the code does not hold but that the
  properties speak about: the calls made to the service, the inserts attempted, and
  the passes of \<^verbatim>\<open>mergeReports\<close> through its loop over the groups.
\<close>

record world =
  profiles :: "string \<rightharpoonup> int"
  reports :: "report_row list"
  oracle_calls :: nat
  insert_calls :: nat
  merge_rounds :: nat

datatype rpc_result = RpcError | RpcData int

record ok_body =
  ok_userId :: string
  creditsLeft :: int
  totalEmails :: nat
  ok_mini_report_ids :: "nat list"
  finalReportId :: nat
  finalReport :: jsval

text \<open>
  The responses, in the order of the source: 400 \<^verbatim>\<open>Missing userId or emails\<close>,
  500 \<^verbatim>\<open>Supabase not configured\<close>, 402 \<^verbatim>\<open>Not enough credits\<close>,
  404 \<^verbatim>\<open>User not found\<close>, 500 \<^verbatim>\<open>Failed to save final report\<close>,
  500 \<^verbatim>\<open>IA analysis failed\<close> (the outer \<^verbatim>\<open>catch\<close>), and the 200 body.
\<close>

datatype response =
    BadRequest
  | NotConfigured
  | NotEnoughCredits
  | UserNotFound
  | FailedToSaveFinal
  | AnalysisFailed
  | Ok ok_body

definition BATCH_SIZE :: nat where
  "BATCH_SIZE = 50"

definition MERGE_BATCH_SIZE :: nat where
  "MERGE_BATCH_SIZE = 5"

definition call_oracle :: "env \<Rightarrow> world \<Rightarrow> string option \<times> world" where
  "call_oracle e w = (chat_completion e (oracle_calls w), w\<lparr>oracle_calls := Suc (oracle_calls w)\<rparr>)"

definition insert_row :: "env \<Rightarrow> world \<Rightarrow> (nat \<Rightarrow> report_row) \<Rightarrow> nat option \<times> world" where
  "insert_row e w mk =
     (case insert_report e (insert_calls w) of
        None \<Rightarrow> (None, w\<lparr>insert_calls := Suc (insert_calls w)\<rparr>)
      | Some i \<Rightarrow> (Some i, w\<lparr>reports := reports w @ [mk i], insert_calls := Suc (insert_calls w)\<rparr>))"

text \<open>
  \<^verbatim>\<open>xs[0]\<close>, and reading the four properties of a value: reading a property of
  \<^verbatim>\<open>undefined\<close> or \<^verbatim>\<open>null\<close> throws a TypeError (\<open>None\<close>); no other value but an
  object has a property of one of these four names.
\<close>

definition index0 :: "jsval list \<Rightarrow> jsval" where
  "index0 xs = (case xs of [] \<Rightarrow> JUndefined | x # _ \<Rightarrow> x)"

definition props_of :: "jsval \<Rightarrow> (string \<Rightarrow> jsval) option" where
  "props_of v =
     (case v of
        JUndefined \<Rightarrow> None
      | JNull \<Rightarrow> None
      | JObject kvs \<Rightarrow> Some (get_prop kvs)
      | _ \<Rightarrow> Some (\<lambda>k. JUndefined))"

definition mini_row :: "string \<Rightarrow> jsobj \<Rightarrow> nat \<Rightarrow> report_row" where
  "mini_row uid parsed i =
     \<lparr>row_id = i, user_id = uid,
      total_emails = get_prop parsed ''total_emails'',
      report_text = get_prop parsed ''summary'',
      summary = get_prop parsed ''summary'',
      classification = get_prop parsed ''classification'',
      highlights = get_prop parsed ''highlights'',
      sentiment_overall = get_prop parsed ''classification'',
      mini_report_ids = None,
      is_final = False\<rparr>"

definition final_row :: "string \<Rightarrow> (string \<Rightarrow> jsval) \<Rightarrow> nat list \<Rightarrow> nat \<Rightarrow> report_row" where
  "final_row uid fj ids i =
     \<lparr>row_id = i, user_id = uid,
      total_emails = fj ''total_emails'',
      report_text = fj ''summary'',
      summary = fj ''summary'',
      classification = fj ''classification'',
      highlights = fj ''highlights'',
      sentiment_overall = fj ''classification'',
      mini_report_ids = Some ids,
      is_final = True\<rparr>"

subsection \<open>Step 1: the credits\<close>

text \<open>
  Modelled from the spec: the stored procedure \<^verbatim>\<open>decrement_credits\<close> that
  \<^verbatim>\<open>supabase.rpc\<close> calls is not part of the sources. The spec describes it as a single
  atomic decrement with a floor check: it decrements only if the balance is at least
  the amount and returns the new balance, and is rejected otherwise. The handler reads
  a rejection from the \<^verbatim>\<open>error\<close> of the call, so a rejection (too small a balance,
  or no such account) is \<open>RpcError\<close>.
\<close>

definition decrement_credits :: "(string \<rightharpoonup> int) \<Rightarrow> string \<Rightarrow> int \<Rightarrow> rpc_result \<times> (string \<rightharpoonup> int)" where
  "decrement_credits ps p_user_id p_amount =
     (case ps p_user_id of
        None \<Rightarrow> (RpcError, ps)
      | Some credits \<Rightarrow>
          if p_amount \<le> credits then (RpcData (credits - p_amount), ps(p_user_id \<mapsto> credits - p_amount))
          else (RpcError, ps))"

text \<open>
  The \<^verbatim>\<open>try\<close> block calls the procedure; its \<^verbatim>\<open>catch\<close> block, entered when the call
  throws, reads the row, compares and writes the row back. The \<^verbatim>\<open>profiles\<close> table
  answers a select with the row when there is one and with an error otherwise, and the
  update of a row just read succeeds. The result is a response, or the new balance.
\<close>

definition reserve_credits :: "env \<Rightarrow> world \<Rightarrow> string \<Rightarrow> int \<Rightarrow> (response + int) \<times> world" where
  "reserve_credits e w userId neededCredits =
     (if rpc_available e then
        (case decrement_credits (profiles w) userId neededCredits of
           (RpcError, ps) \<Rightarrow> (Inl NotEnoughCredits, w\<lparr>profiles := ps\<rparr>)
         | (RpcData newBalance, ps) \<Rightarrow> (Inr newBalance, w\<lparr>profiles := ps\<rparr>))
      else
        (case profiles w userId of
           None \<Rightarrow> (Inl UserNotFound, w)
         | Some credits \<Rightarrow>
             if credits < neededCredits then (Inl NotEnoughCredits, w)
             else (Inr (credits - neededCredits),
                   w\<lparr>profiles := (profiles w)(userId \<mapsto> credits - neededCredits)\<rparr>)))"

subsection \<open>Step 3: one call and one mini-report per batch\<close>

text \<open>
  The call to the service for one batch and the repair of its answer: when the call
  throws, \<^verbatim>\<open>aiRaw\<close> keeps its initial value, the empty string.
\<close>

definition analyze_batch :: "env \<Rightarrow> world \<Rightarrow> email list \<Rightarrow> jsobj \<times> world" where
  "analyze_batch e w batch =
     (let (r, w1) = call_oracle e w;
          aiRaw = (case r of None \<Rightarrow> [] | Some content \<Rightarrow> content)
      in (safeParseJson (JSON_parse_obj e) aiRaw (length batch), w1))"

text \<open>
  The body of the loop over the batches: the id and the result are pushed together,
  under \<^verbatim>\<open>if (!miniErr && insertedMini)\<close>.
\<close>

definition batch_step :: "env \<Rightarrow> string \<Rightarrow> nat list \<times> jsval list \<times> world \<Rightarrow> email list \<Rightarrow> nat list \<times> jsval list \<times> world" where
  "batch_step e userId acc batch =
     (case acc of (miniReportIds, partialJsons, w) \<Rightarrow>
        (let (parsed, w1) = analyze_batch e w batch;
             (insertedMini, w2) = insert_row e w1 (mini_row userId parsed)
         in case insertedMini of
              Some i \<Rightarrow> (miniReportIds @ [i], partialJsons @ [JObject parsed], w2)
            | None \<Rightarrow> (miniReportIds, partialJsons, w2)))"

definition process_batches :: "env \<Rightarrow> string \<Rightarrow> email list list \<Rightarrow> world \<Rightarrow> nat list \<times> jsval list \<times> world" where
  "process_batches e userId batches w = foldl (batch_step e userId) ([], [], w) batches"

subsection \<open>Step 4: \<^verbatim>\<open>mergeReports\<close>\<close>

text \<open>One group: the merged answer, repaired, or \<^verbatim>\<open>group[0]\<close> when the call throws.\<close>

definition merge_group :: "env \<Rightarrow> world \<Rightarrow> jsval list \<Rightarrow> jsval \<times> world" where
  "merge_group e w grp =
     (let (r, w1) = call_oracle e w
      in case r of
           Some content \<Rightarrow> (JObject (safeParseJson (JSON_parse_obj e) content 0), w1)
         | None \<Rightarrow> (index0 grp, w1))"

text \<open>The loop over the groups pushes one result per group.\<close>

definition merge_step :: "env \<Rightarrow> jsval list \<times> world \<Rightarrow> jsval list \<Rightarrow> jsval list \<times> world" where
  "merge_step e acc grp =
     (case acc of (merged, w) \<Rightarrow>
        (let (m, w1) = merge_group e w grp in (merged @ [m], w1)))"

definition merge_groups :: "env \<Rightarrow> jsval list list \<Rightarrow> world \<Rightarrow> jsval list \<times> world" where
  "merge_groups e groups w = foldl (merge_step e) ([], w) groups"

text \<open>
  \<^verbatim>\<open>mergeReports\<close> closes over \<^verbatim>\<open>MERGE_BATCH_SIZE\<close>, here the argument \<open>fan_in\<close>.
  Not returning is the value \<open>None\<close>.
\<close>

partial_function (option) mergeReports :: "env \<Rightarrow> nat \<Rightarrow> jsval list \<Rightarrow> world \<Rightarrow> (jsval \<times> world) option" where
  "mergeReports e fan_in jsonList w =
     (if length jsonList = 1 then Some (index0 jsonList, w)
      else
        (case chunkArray jsonList fan_in of
           None \<Rightarrow> None
         | Some groups \<Rightarrow>
             (case merge_groups e groups (w\<lparr>merge_rounds := Suc (merge_rounds w)\<rparr>) of
                (merged, w1) \<Rightarrow>
                  if length merged > 1 then mergeReports e fan_in merged w1
                  else Some (index0 merged, w1))))"

declare mergeReports.simps [code]

subsection \<open>The handler\<close>

text \<open>
  The user id is a string and \<^verbatim>\<open>emails\<close> an array, so the first guard rejects the
  empty user id and the empty array. \<^verbatim>\<open>finalJson.total_emails\<close> throws when
  \<^verbatim>\<open>finalJson\<close> is \<^verbatim>\<open>undefined\<close>, and the outer \<^verbatim>\<open>catch\<close> answers.
\<close>

definition analyzev2 :: "env \<Rightarrow> world \<Rightarrow> string \<Rightarrow> email list \<Rightarrow> (response \<times> world) option" where
  "analyzev2 e w userId emails =
     (if userId = [] \<or> emails = [] then Some (BadRequest, w)
      else if \<not> supabase_configured e then Some (NotConfigured, w)
      else
        (let neededCredits = int (length emails * CREDITS_PER_EMAIL e)
         in case reserve_credits e w userId neededCredits of
              (Inl err, w1) \<Rightarrow> Some (err, w1)
            | (Inr newBalance, w1) \<Rightarrow>
                (case chunkArray emails BATCH_SIZE of
                   None \<Rightarrow> None
                 | Some batches \<Rightarrow>
                     (case process_batches e userId batches w1 of
                        (miniReportIds, partialJsons, w2) \<Rightarrow>
                          (case mergeReports e MERGE_BATCH_SIZE partialJsons w2 of
                             None \<Rightarrow> None
                           | Some (finalJson, w3) \<Rightarrow>
                               (case props_of finalJson of
                                  None \<Rightarrow> Some (AnalysisFailed, w3)
                                | Some fj \<Rightarrow>
                                    (case insert_row e w3 (final_row userId fj miniReportIds) of
                                       (None, w4) \<Rightarrow> Some (FailedToSaveFinal, w4)
                                     | (Some fid, w4) \<Rightarrow>
                                         Some (Ok \<lparr>ok_userId = userId,
                                                   creditsLeft =
                                                     (case profiles w4 userId of
                                                        Some credits \<Rightarrow> credits
                                                      | None \<Rightarrow> newBalance),
                                                   totalEmails = length emails,
                                                   ok_mini_report_ids = miniReportIds,
                                                   finalReportId = fid,
                                                   finalReport = finalJson\<rparr>, w4))))))))"

section \<open>Vocabulary of the properties\<close>

text \<open>
  The four required fields and their defaults, and what the data model asks of an
  AnalysisResult: \<^verbatim>\<open>total_emails\<close> a non-negative integer, \<^verbatim>\<open>classification\<close> an
  object giving a non-negative integer to each of the four categories,
  \<^verbatim>\<open>highlights\<close> an array, \<^verbatim>\<open>summary\<close> a string. \<open>try_parse\<close> is the \<^verbatim>\<open>try\<close>
  block of \<^verbatim>\<open>safeParseJson\<close> up to the parser's return: the object parsed out of the
  matched substring, if both the match and the parser succeed.
\<close>

definition required_fields :: "string list" where
  "required_fields = [''total_emails'', ''classification'', ''highlights'', ''summary'']"

definition default_value :: "nat \<Rightarrow> string \<Rightarrow> jsval" where
  "default_value fallbackTotal k =
     (if k = ''total_emails'' then JNumber (of_nat fallbackTotal)
      else if k = ''classification'' then zero_classification
      else if k = ''highlights'' then JArray []
      else JString [])"

definition is_count :: "jsval \<Rightarrow> bool" where
  "is_count v = (case v of JNumber q \<Rightarrow> 0 \<le> q \<and> of_int \<lfloor>q\<rfloor> = q | _ \<Rightarrow> False)"

definition categories :: "string list" where
  "categories = [''positive'', ''negative'', ''neutral'', ''other'']"

definition is_classification :: "jsval \<Rightarrow> bool" where
  "is_classification v =
     (case v of JObject kvs \<Rightarrow> list_all (\<lambda>c. is_count (get_prop kvs c)) categories | _ \<Rightarrow> False)"

definition is_sequence :: "jsval \<Rightarrow> bool" where
  "is_sequence v = (case v of JArray xs \<Rightarrow> True | _ \<Rightarrow> False)"

definition is_text :: "jsval \<Rightarrow> bool" where
  "is_text v = (case v of JString s \<Rightarrow> True | _ \<Rightarrow> False)"

definition field_ok :: "string \<Rightarrow> jsval \<Rightarrow> bool" where
  "field_ok k v =
     (if k = ''total_emails'' then is_count v
      else if k = ''classification'' then is_classification v
      else if k = ''highlights'' then is_sequence v
      else is_text v)"

definition well_formed :: "jsobj \<Rightarrow> bool" where
  "well_formed r = list_all (\<lambda>k. field_ok k (get_prop r k)) required_fields"

definition try_parse :: "(string \<Rightarrow> jsobj option) \<Rightarrow> string \<Rightarrow> jsobj option" where
  "try_parse p str = (case match_braces str of None \<Rightarrow> None | Some m \<Rightarrow> p m)"

section \<open>Properties of the chunker\<close>

lemma ceil_div_step:
  fixes n sz :: nat
  assumes "0 < sz" "0 < n"
  shows "(n + sz - 1) div sz = Suc ((n - sz + sz - 1) div sz)"
proof (cases "n \<le> sz")
  case True
  with assms have "(n + sz - 1) div sz = 1"
    by (intro div_nat_eqI) auto
  moreover from True assms have "(n - sz + sz - 1) div sz = 0" by simp
  ultimately show ?thesis by simp
next
  case False
  define k where "k = n - sz + sz - 1"
  have "n + sz - 1 = k + sz" using False assms by (simp add: k_def)
  moreover have "(k + sz) div sz = Suc (k div sz)" using assms by simp
  ultimately show ?thesis by (simp add: k_def)
qed

lemma chunk_loop_returns:
  assumes "0 < sz"
  shows "\<exists>bs. chunk_loop arr sz i out = Some (out @ bs)
           \<and> concat bs = drop i arr
           \<and> length bs = (length arr - i + sz - 1) div sz
           \<and> (\<forall>b \<in> set bs. b \<noteq> [] \<and> length b \<le> sz)
           \<and> (\<forall>b \<in> set (butlast bs). length b = sz)"
proof (induction "length arr - i" arbitrary: i out rule: less_induct)
  case less
  show ?case
  proof (cases "i < length arr")
    case False
    then have "chunk_loop arr sz i out = Some (out @ [])"
      by (subst chunk_loop.simps) simp
    moreover from False assms have "(length arr - i + sz - 1) div sz = 0" by simp
    ultimately show ?thesis using False by auto
  next
    case True
    let ?b = "slice arr i (i + sz)"
    have step: "chunk_loop arr sz i out = chunk_loop arr sz (i + sz) (out @ [?b])"
      using True by (subst chunk_loop.simps) simp
    from True assms have "length arr - (i + sz) < length arr - i" by simp
    from less[OF this, of "out @ [?b]"] obtain bs where
      bs: "chunk_loop arr sz (i + sz) (out @ [?b]) = Some ((out @ [?b]) @ bs)"
          "concat bs = drop (i + sz) arr"
          "length bs = (length arr - (i + sz) + sz - 1) div sz"
          "\<forall>b \<in> set bs. b \<noteq> [] \<and> length b \<le> sz"
          "\<forall>b \<in> set (butlast bs). length b = sz"
      by blast
    have b_def: "?b = take sz (drop i arr)" by (simp add: slice_def)
    have b_ne: "?b \<noteq> []" using True assms by (simp add: b_def)
    have b_le: "length ?b \<le> sz" by (simp add: b_def)
    have c: "concat (?b # bs) = drop i arr"
    proof -
      have "drop sz (drop i arr) = drop (i + sz) arr" by (simp add: add.commute)
      moreover have "take sz (drop i arr) @ drop sz (drop i arr) = drop i arr"
        by (rule append_take_drop_id)
      ultimately have "take sz (drop i arr) @ drop (i + sz) arr = drop i arr" by simp
      then show ?thesis using bs(2) by (simp add: b_def)
    qed
    have l: "length (?b # bs) = (length arr - i + sz - 1) div sz"
    proof -
      have "length arr - (i + sz) = (length arr - i) - sz" by simp
      then show ?thesis
        using ceil_div_step[of sz "length arr - i"] True assms bs(3) by simp
    qed
    have full: "\<forall>b \<in> set (butlast (?b # bs)). length b = sz"
    proof (cases "bs = []")
      case True then show ?thesis by simp
    next
      case False
      then obtain b' where "b' \<in> set bs" by (cases bs) auto
      with bs(4) have "concat bs \<noteq> []" by auto
      with bs(2) have "i + sz < length arr" by simp
      then have "length ?b = sz" by (simp add: b_def)
      with False bs(5) show ?thesis by simp
    qed
    have "chunk_loop arr sz i out = Some (out @ (?b # bs))"
      using step bs(1) by simp
    with c l full bs(4) b_ne b_le show ?thesis
      by (intro exI[of _ "?b # bs"]) simp
  qed
qed

text \<open>
  C7. For every array and every size of at least 1, \<^verbatim>\<open>chunkArray\<close> returns; its
  batches, concatenated in order, are the input; there are \<open>\<lceil>n / size\<rceil>\<close> of them; no
  batch is empty or longer than the size, and every batch but the last has exactly the
  size; the empty array gives no batch. Being a function of its two arguments, the
  model is deterministic and has no effect.
\<close>

theorem chunkArray_correct:
  assumes "1 \<le> sz"
  shows "\<exists>bs. chunkArray arr sz = Some bs
           \<and> concat bs = arr
           \<and> length bs = (length arr + sz - 1) div sz
           \<and> (\<forall>b \<in> set bs. b \<noteq> [] \<and> length b \<le> sz)
           \<and> (\<forall>b \<in> set (butlast bs). length b = sz)
           \<and> (arr = [] \<longrightarrow> bs = [])"
proof -
  from assms have "0 < sz" by simp
  from chunk_loop_returns[OF this, of arr 0 "[]"] obtain bs where
    bs: "chunk_loop arr sz 0 [] = Some ([] @ bs)" "concat bs = drop 0 arr"
        "length bs = (length arr - 0 + sz - 1) div sz"
        "\<forall>b \<in> set bs. b \<noteq> [] \<and> length b \<le> sz"
        "\<forall>b \<in> set (butlast bs). length b = sz"
    by blast
  have "arr = [] \<longrightarrow> bs = []"
  proof
    assume "arr = []"
    with bs(3) assms have "length bs = 0" by simp
    then show "bs = []" by simp
  qed
  with bs show ?thesis by (simp add: chunkArray_def)
qed

theorem chunkArray_correct_witness:
  "(1::nat) \<le> 3 \<and> chunkArray [1::nat, 2, 3, 4, 5, 6, 7] 3 = Some [[1, 2, 3], [4, 5, 6], [7]]
   \<and> concat [[1::nat, 2, 3], [4, 5, 6], [7]] = [1, 2, 3, 4, 5, 6, 7]"
proof -
  have h: "(1::nat) \<le> 3" by simp
  have e: "chunkArray [1::nat, 2, 3, 4, 5, 6, 7] 3 = Some [[1, 2, 3], [4, 5, 6], [7]]"
    by (simp add: chunkArray_def chunk_loop.simps slice_def)
  from chunkArray_correct[OF h, of "[1::nat, 2, 3, 4, 5, 6, 7]"] e show ?thesis by simp
qed

section \<open>Properties of the repair\<close>

lemma get_prop_set_prop:
  "get_prop (set_prop obj k v) k' = (if k' = k then v else get_prop obj k')"
  by (simp add: get_prop_def set_prop_def update_conv')

lemma get_prop_fill:
  "get_prop (fill k d obj) k' = (if k' = k \<and> \<not> truthy (get_prop obj k) then d else get_prop obj k')"
  by (simp add: fill_def get_prop_set_prop)

lemma safeParseJson_failed:
  "try_parse p str = None \<Longrightarrow> safeParseJson p str n = fallback_result str n"
  by (auto simp: try_parse_def safeParseJson_def split: option.splits)

lemma safeParseJson_parsed:
  "try_parse p str = Some parsed \<Longrightarrow>
   safeParseJson p str n =
     fill ''summary'' (JString [])
       (fill ''highlights'' (JArray [])
       (fill ''classification'' zero_classification
       (fill ''total_emails'' (JNumber (of_nat n)) parsed)))"
  by (auto simp: try_parse_def safeParseJson_def split: option.splits)

lemma get_prop_parsed:
  assumes "try_parse p str = Some parsed"
  shows "get_prop (safeParseJson p str n) k =
           (if k \<in> set required_fields \<and> \<not> truthy (get_prop parsed k) then default_value n k
            else get_prop parsed k)"
  unfolding safeParseJson_parsed[OF assms]
  by (auto simp: get_prop_fill required_fields_def default_value_def)

lemma default_value_ok: "k \<in> set required_fields \<Longrightarrow> field_ok k (default_value n k)"
  by (auto simp: required_fields_def field_ok_def default_value_def is_count_def
      is_classification_def zero_classification_def categories_def get_prop_def
      is_sequence_def is_text_def)

lemma default_value_defined: "default_value n k \<noteq> JUndefined"
  by (simp add: default_value_def zero_classification_def)

lemma get_prop_fallback:
  "k \<in> set required_fields \<Longrightarrow>
   get_prop (fallback_result str n) k = (if k = ''summary'' then JString (take 1000 str) else default_value n k)"
  by (auto simp: required_fields_def fallback_result_def get_prop_def default_value_def)

lemma well_formed_fallback: "well_formed (fallback_result str n)"
  unfolding well_formed_def list_all_iff
proof
  fix k assume k: "k \<in> set required_fields"
  show "field_ok k (get_prop (fallback_result str n) k)"
  proof (cases "k = ''summary''")
    case True
    then show ?thesis using get_prop_fallback[OF k] by (simp add: field_ok_def is_text_def)
  next
    case False
    then show ?thesis using default_value_ok[OF k] by (simp add: get_prop_fallback[OF k])
  qed
qed

text \<open>
  C1, as stated, fails: the repair checks that a field is truthy, never its type.
  The answer \<^verbatim>\<open>{"total_emails":"many"}\<close> keeps the string as its count.
\<close>

theorem safeParseJson_wrong_type:
  \<open>\<not> well_formed (safeParseJson JSON_parse_object ''{"total_emails":"many"}'' 3)\<close>
  by code_simp

text \<open>
  C1, amended. For every parser, every text and every fallback count,
  \<^verbatim>\<open>safeParseJson\<close> returns an object in which the four fields are present. When no
  brace-delimited substring is found or the parser throws, the object is the fallback
  and is well typed. When an object is parsed, the result is well typed exactly when
  every required field of the parsed object is falsy or well typed.
\<close>

theorem safeParseJson_total:
  "(\<forall>k \<in> set required_fields. get_prop (safeParseJson p str n) k \<noteq> JUndefined)
   \<and> (try_parse p str = None \<longrightarrow>
        safeParseJson p str n = fallback_result str n \<and> well_formed (safeParseJson p str n))
   \<and> (\<forall>parsed. try_parse p str = Some parsed \<longrightarrow>
        (well_formed (safeParseJson p str n) \<longleftrightarrow>
           (\<forall>k \<in> set required_fields. \<not> truthy (get_prop parsed k) \<or> field_ok k (get_prop parsed k))))"
proof (intro conjI allI impI ballI)
  fix k assume k: "k \<in> set required_fields"
  show "get_prop (safeParseJson p str n) k \<noteq> JUndefined"
  proof (cases "try_parse p str")
    case None
    then show ?thesis
      using k default_value_defined[of n k]
      by (simp add: safeParseJson_failed get_prop_fallback)
  next
    case (Some parsed)
    show ?thesis
    proof (cases "truthy (get_prop parsed k)")
      case True
      then have "get_prop parsed k \<noteq> JUndefined" by auto
      with True show ?thesis by (simp add: get_prop_parsed[OF Some])
    next
      case False
      with k show ?thesis by (simp add: get_prop_parsed[OF Some] default_value_defined)
    qed
  qed
next
  assume "try_parse p str = None"
  then show "safeParseJson p str n = fallback_result str n" by (rule safeParseJson_failed)
next
  assume "try_parse p str = None"
  then show "well_formed (safeParseJson p str n)"
    by (simp add: safeParseJson_failed well_formed_fallback)
next
  fix parsed assume P: "try_parse p str = Some parsed"
  show "well_formed (safeParseJson p str n) \<longleftrightarrow>
        (\<forall>k \<in> set required_fields. \<not> truthy (get_prop parsed k) \<or> field_ok k (get_prop parsed k))"
    unfolding well_formed_def list_all_iff
    using default_value_ok by (auto simp: get_prop_parsed[OF P])
qed

theorem safeParseJson_total_witness:
  \<open>try_parse JSON_parse_object ''no json here'' = None
   \<and> try_parse JSON_parse_object ''Sure! {"summary":"ok","total_emails":2} Bye''
       = Some [(''summary'', JString ''ok''), (''total_emails'', JNumber 2)]
   \<and> well_formed (safeParseJson JSON_parse_object ''no json here'' 3)
   \<and> well_formed (safeParseJson JSON_parse_object ''Sure! {"summary":"ok","total_emails":2} Bye'' 3)
   \<and> get_prop (safeParseJson JSON_parse_object ''no json here'' 3) ''summary'' \<noteq> JUndefined\<close>
proof -
  have a: \<open>try_parse JSON_parse_object ''no json here'' = None\<close> by code_simp
  have b: \<open>try_parse JSON_parse_object ''Sure! {"summary":"ok","total_emails":2} Bye''
       = Some [(''summary'', JString ''ok''), (''total_emails'', JNumber 2)]\<close> by code_simp
  have c: "''summary'' \<in> set required_fields" by (simp add: required_fields_def)
  have d: "\<forall>k \<in> set required_fields.
             \<not> truthy (get_prop [(''summary'', JString ''ok''), (''total_emails'', JNumber 2)] k)
             \<or> field_ok k (get_prop [(''summary'', JString ''ok''), (''total_emails'', JNumber 2)] k)"
    by (simp add: required_fields_def get_prop_def field_ok_def is_count_def is_text_def)
  from safeParseJson_total[of JSON_parse_object "''no json here''" 3] a c
  have 1: "well_formed (safeParseJson JSON_parse_object ''no json here'' 3)"
    and 2: "get_prop (safeParseJson JSON_parse_object ''no json here'' 3) ''summary'' \<noteq> JUndefined"
    by blast+
  from safeParseJson_total[of JSON_parse_object \<open>''Sure! {"summary":"ok","total_emails":2} Bye''\<close> 3] b d
  have 3: \<open>well_formed (safeParseJson JSON_parse_object ''Sure! {"summary":"ok","total_emails":2} Bye'' 3)\<close>
    by blast
  from a b 1 2 3 show ?thesis by blast
qed

text \<open>
  C8, as stated, fails: a field that is present but falsy is replaced. The count 0 of
  \<^verbatim>\<open>{"total_emails":0}\<close> becomes the fallback count 50.
\<close>

theorem safeParseJson_overwrites_zero:
  \<open>try_parse JSON_parse_object ''{"total_emails":0}'' = Some [(''total_emails'', JNumber 0)]
   \<and> get_prop [(''total_emails'', JNumber 0)] ''total_emails'' = JNumber 0
   \<and> get_prop (safeParseJson JSON_parse_object ''{"total_emails":0}'' 50) ''total_emails'' = JNumber 50\<close>
  by code_simp

text \<open>
  C8, amended. When an object is parsed out of the text, every required field whose
  parsed value is missing or falsy (\<^verbatim>\<open>0\<close>, the empty string, \<^verbatim>\<open>null\<close>,
  \<^verbatim>\<open>false\<close>) gets its default, and every other property, required or not, keeps
  its parsed value.
\<close>

theorem safeParseJson_fills_falsy:
  assumes "try_parse p str = Some parsed"
  shows "\<forall>k. get_prop (safeParseJson p str n) k =
           (if k \<in> set required_fields \<and> \<not> truthy (get_prop parsed k) then default_value n k
            else get_prop parsed k)"
  unfolding safeParseJson_parsed[OF assms]
  by (auto simp: get_prop_fill required_fields_def default_value_def)

theorem safeParseJson_fills_falsy_witness:
  \<open>try_parse JSON_parse_object ''{"total_emails":7,"summary":"","extra":true}''
     = Some [(''total_emails'', JNumber 7), (''summary'', JString ''''), (''extra'', JBool True)]
   \<and> get_prop (safeParseJson JSON_parse_object ''{"total_emails":7,"summary":"","extra":true}'' 50) ''total_emails'' = JNumber 7
   \<and> get_prop (safeParseJson JSON_parse_object ''{"total_emails":7,"summary":"","extra":true}'' 50) ''highlights'' = JArray []
   \<and> get_prop (safeParseJson JSON_parse_object ''{"total_emails":7,"summary":"","extra":true}'' 50) ''extra'' = JBool True\<close>
proof -
  have a: \<open>try_parse JSON_parse_object ''{"total_emails":7,"summary":"","extra":true}''
     = Some [(''total_emails'', JNumber 7), (''summary'', JString ''''), (''extra'', JBool True)]\<close>
    by code_simp
  from safeParseJson_fills_falsy[OF a, of 50] a show ?thesis
    by (simp add: required_fields_def default_value_def get_prop_def)
qed

end
